theory Spec2Isabelle
  imports Main "HOL-Library.Option_ord" "HOL-Library.Char_ord" "HOL-Library.List_Lexorder"
begin

section \<open>Errors\<close>

text \<open>
  The exceptions the services throw, each with the i18n message key it carries.
  \<open>TypeError\<close> is the JavaScript runtime error of a property read or a method call
  on \<open>null\<close>/\<open>undefined\<close>; \<open>TypeORMError\<close> and \<open>QueryFailedError\<close> are
  what the query builder and the database raise.
\<close>

datatype error =
    BadRequestException string
  | ForbiddenException string
  | UnauthorizedException string
  | InternalServerErrorException string
  | TypeError
  | TypeORMError
  | QueryFailedError

section \<open>Entities\<close>

text \<open>
  Modelled from the spec: the entity declarations of Product, Review and Company are
  missing (only Category is among the sources). Section 3 of the specification gives their
  columns: a product has an id, a price, a category and a company; a review has an id,
  a product, an authoring user and a creation time; a company has an id and an owning
  user. A relation is stored as the id the services read through it
  (\<open>product.company.id\<close>, \<open>company.user.id\<close>, \<open>review.user.id\<close>); a product's category
  is nullable, as the left join of the listing allows.
\<close>

record Category =
  category_id :: int
  title :: string

record Company =
  company_id :: int
  company_user :: int

record Product =
  product_id :: int
  price :: int
  category :: "int option"
  company :: int
  attributes :: string

record Review =
  review_id :: int
  review_product :: int
  review_user :: int
  created_at :: int
  body :: string

section \<open>The cache\<close>

text \<open>
  The cache manager is a key-value store with a time to live: \<open>set\<close> stores a copy of
  the data of a value with the time at which it expires, \<open>get\<close> returns a value that has
  not expired. The store is an association list, newest entry first. The one store of the
  program is split by the type argument of \<open>cache.get<T>\<close>: one list per kind of cached
  value.
\<close>

type_synonym ('k, 'v) cache = "('k \<times> 'v \<times> nat) list"

definition cache_get :: "('k, 'v) cache \<Rightarrow> nat \<Rightarrow> 'k \<Rightarrow> 'v option" where
  "cache_get c t k =
     (case map_of c k of
        None \<Rightarrow> None
      | Some (v, expires) \<Rightarrow> if t < expires then Some v else None)"

definition cache_set :: "('k, 'v) cache \<Rightarrow> nat \<Rightarrow> 'k \<Rightarrow> 'v \<Rightarrow> nat \<Rightarrow> ('k, 'v) cache" where
  "cache_set c t k v ttl = (k, v, t + ttl) # c"

text \<open>
  Modelled from the spec: \<open>src/common/constants\<close> is missing; the constant is the
  fixed time to live of section 4.2, four minutes in the unit of the cache clock (the
  review listing passes the literal 240).
\<close>

definition FOUR_MINUTES :: nat where
  "FOUR_MINUTES = 240"

text \<open>
  Modelled from the spec: \<open>src/common/utils/get-cache-key\<close> is missing. Section 4.1
  makes the key a deterministic function of the parameters in which every parameter
  difference changes the key: the key is the tuple of the parameters itself.
\<close>

datatype ProductsCacheKey =
  ProductsCacheKey "string option" "string option" nat nat int int "int option" "int list option"

definition getProductsCacheKey ::
  "string option \<Rightarrow> string option \<Rightarrow> nat \<Rightarrow> nat \<Rightarrow> int \<Rightarrow> int \<Rightarrow> int option \<Rightarrow> int list option
     \<Rightarrow> ProductsCacheKey" where
  "getProductsCacheKey orderByType' orderBy' limit' page' minPrice' maxPrice' categoryId'
       lastCategories' =
     ProductsCacheKey orderByType' orderBy' limit' page' minPrice' maxPrice' categoryId'
       lastCategories'"

definition getProductCacheKey :: "int \<Rightarrow> int" where
  "getProductCacheKey productId = productId"

datatype ReviewsCacheKey =
  ReviewsCacheKey int "string option" "string option" nat nat

definition getReviewsCacheKey ::
  "int \<Rightarrow> string option \<Rightarrow> string option \<Rightarrow> nat \<Rightarrow> nat \<Rightarrow> ReviewsCacheKey" where
  "getReviewsCacheKey productId orderByType' orderBy' limit' page' =
     ReviewsCacheKey productId orderByType' orderBy' limit' page'"

definition getReviewCacheKey :: "int \<Rightarrow> int" where
  "getReviewCacheKey reviewId = reviewId"

section \<open>The state of the system\<close>

text \<open>
  What the review listing hands back, and what the cache holds under the key of a review
  listing: a page of reviews, or the empty object \<open>{}\<close>. The listing gives the cache a
  promise that it has not awaited; a promise has no data of its own, and the copy the
  store keeps of it is the empty object.
\<close>

datatype reviews_result = Page "Review list" | EmptyObject

text \<open>
  The tables of the database, the cache and the clock the cache reads. A service method
  takes the state and returns its result with the state it leaves; a thrown exception is
  \<open>Inl\<close>. Each request runs its awaited calls in sequence.
\<close>

record state =
  productsRepo :: "Product list"
  reviewsRepo :: "Review list"
  companiesRepo :: "Company list"
  categoriesRepo :: "Category list"
  productsCache :: "(ProductsCacheKey, Product list) cache"
  productCache :: "(int, Product) cache"
  reviewsCache :: "(ReviewsCacheKey, reviews_result) cache"
  reviewCache :: "(int, Review) cache"
  clock :: nat

section \<open>Collaborating services\<close>

text \<open>
  Modelled from the spec: CategoriesService and CompaniesService are missing. They are
  the entity repositories of section 2: a lookup by id, and for a company a lookup by the
  id of its owner, with \<open>null\<close> (\<open>None\<close>) when no row matches.
\<close>

definition CategoriesService_findById :: "state \<Rightarrow> int \<Rightarrow> Category option" where
  "CategoriesService_findById s cid = find (\<lambda>c. category_id c = cid) (categoriesRepo s)"

definition CompaniesService_findById :: "state \<Rightarrow> int \<Rightarrow> Company option" where
  "CompaniesService_findById s cid = find (\<lambda>c. company_id c = cid) (companiesRepo s)"

definition CompaniesService_findByUserId :: "state \<Rightarrow> int \<Rightarrow> Company option" where
  "CompaniesService_findByUserId s uid = find (\<lambda>c. company_user c = uid) (companiesRepo s)"

section \<open>JavaScript values\<close>

text \<open>
  An optional parameter is \<open>None\<close> when it is \<open>undefined\<close>. A condition \<open>if (x)\<close>
  tests truthiness: a string is truthy when it is not empty, a number when it is not 0.
\<close>

definition truthy_string :: "string option \<Rightarrow> bool" where
  "truthy_string v = (case v of None \<Rightarrow> False | Some str \<Rightarrow> str \<noteq> [])"

definition toUpperCase_char :: "char \<Rightarrow> char" where
  "toUpperCase_char c =
     (let n = (of_char c :: nat) in if 97 \<le> n \<and> n \<le> 122 then char_of (n - 32) else c)"

definition toUpperCase :: "string \<Rightarrow> string" where
  "toUpperCase str = map toUpperCase_char str"

section \<open>The query builder\<close>

text \<open>
  A select query of the query builder: its ORDER BY clauses in order, LIMIT and OFFSET
  (each table adds the filters of its listing). \<open>orderBy\<close> replaces the clauses,
  \<open>addOrderBy\<close> appends one; both refuse a direction that is neither \<open>ASC\<close> nor
  \<open>DESC\<close> with a TypeORMError. A sort expression evaluates on a row to a number or to
  NULL (\<open>None\<close>).
\<close>

datatype direction = ASC | DESC

datatype nulls = NULLS_FIRST | NULLS_LAST

definition parse_direction :: "string \<Rightarrow> direction option" where
  "parse_direction str =
     (if str = ''ASC'' then Some ASC else if str = ''DESC'' then Some DESC else None)"

type_synonym 'e order_clause = "'e \<times> direction \<times> nulls option"

record 'e select_query =
  q_order :: "'e order_clause list"
  q_limit :: "nat option"
  q_offset :: "nat option"

definition orderBy_qb ::
  "'e \<Rightarrow> string \<Rightarrow> nulls option \<Rightarrow> ('e, 'x) select_query_scheme
     \<Rightarrow> error + ('e, 'x) select_query_scheme" where
  "orderBy_qb e dir nl q =
     (case parse_direction dir of
        None \<Rightarrow> Inl TypeORMError
      | Some d \<Rightarrow> Inr (q\<lparr>q_order := [(e, d, nl)]\<rparr>))"

definition addOrderBy_qb ::
  "'e \<Rightarrow> string \<Rightarrow> nulls option \<Rightarrow> ('e, 'x) select_query_scheme
     \<Rightarrow> error + ('e, 'x) select_query_scheme" where
  "addOrderBy_qb e dir nl q =
     (case parse_direction dir of
        None \<Rightarrow> Inl TypeORMError
      | Some d \<Rightarrow> Inr (q\<lparr>q_order := q_order q @ [(e, d, nl)]\<rparr>))"

text \<open>
  One ORDER BY clause on rows whose sort expression evaluates to a value or to NULL
  (\<open>None\<close>). The rows with a value come in ascending or descending order of the value,
  rows with equal values in the order they had; the rows with NULL go where the clause
  says, and where it says nothing after the values when ascending and before them when
  descending.
\<close>

definition nulls_last :: "direction \<Rightarrow> nulls option \<Rightarrow> bool" where
  "nulls_last d nl =
     (case nl of Some NULLS_LAST \<Rightarrow> True | Some NULLS_FIRST \<Rightarrow> False | None \<Rightarrow> d = ASC)"

definition order_by ::
  "('r \<Rightarrow> 'k::linorder option) \<Rightarrow> direction \<Rightarrow> nulls option \<Rightarrow> 'r list \<Rightarrow> 'r list" where
  "order_by f d nl rows =
     (let present = filter (\<lambda>r. f r \<noteq> None) rows;
          absent = filter (\<lambda>r. f r = None) rows;
          ordered = (case d of
                       ASC \<Rightarrow> sort_key f present
                     | DESC \<Rightarrow> rev (sort_key f (rev present)))
      in if nulls_last d nl then ordered @ absent else absent @ ordered)"

text \<open>
  ORDER BY with several clauses, each resolved to the reordering it makes: ordering by
  the last clause first leaves the first clause primary and each later clause a tie-break
  of the ones before it. Rows that tie on every clause keep the order of the table scan.
\<close>

fun order_rows :: "('r list \<Rightarrow> 'r list) list \<Rightarrow> 'r list \<Rightarrow> 'r list" where
  "order_rows [] rows = rows"
| "order_rows (clause # clauses) rows = clause (order_rows clauses rows)"

text \<open>
  LIMIT and OFFSET. The query builder writes either clause only for a truthy number: a
  limit of 0 is no limit.
\<close>

definition limit_offset :: "nat option \<Rightarrow> nat option \<Rightarrow> 'r list \<Rightarrow> 'r list" where
  "limit_offset lim off rows =
     (let skipped = (case off of None \<Rightarrow> rows | Some n \<Rightarrow> if n = 0 then rows else drop n rows)
      in case lim of None \<Rightarrow> skipped | Some n \<Rightarrow> if n = 0 then skipped else take n skipped)"

text \<open>
  Resolving the clauses on the table at hand: one clause the table cannot resolve fails
  the whole query.
\<close>

fun resolve_clauses :: "('c \<Rightarrow> 'o option) \<Rightarrow> 'c list \<Rightarrow> 'o list option" where
  "resolve_clauses res [] = Some []"
| "resolve_clauses res (clause # clauses) =
     (case res clause of
        None \<Rightarrow> None
      | Some resolved \<Rightarrow>
          (case resolve_clauses res clauses of
             None \<Rightarrow> None
           | Some rest \<Rightarrow> Some (resolved # rest)))"

text \<open>
  The Product entity is not among the sources: the table of its columns is a parameter
  of everything that sorts by a column. It gives, for the name of a column, how to read
  the column from a row, and nothing for a name that is no column; every row has a value
  in every column, and the values are of any linearly ordered type.
\<close>

type_synonym 'v columns = "string \<Rightarrow> (Product \<Rightarrow> 'v) option"

section \<open>OrderByTypePipe\<close>

text \<open>
  The pipe the controllers put on the \<open>orderByType\<close> query parameter. A falsy value
  (\<open>undefined\<close> or the empty string) passes as it is; any other value must be an
  element of \<open>['asc', 'desc']\<close>, which \<open>includes\<close> compares with strict equality.
\<close>

definition OrderByTypePipe_transform :: "string option \<Rightarrow> error + string option" where
  "OrderByTypePipe_transform v =
     (case v of
        None \<Rightarrow> Inr v
      | Some str \<Rightarrow>
          if str = [] then Inr v
          else if str \<notin> set [''asc'', ''desc'']
            then Inl (BadRequestException ''messages.invalid_order_by_type'')
          else Inr v)"

section \<open>ProductsService\<close>

record FindAllProductsQueryDto =
  orderBy :: "string option"
  limit :: "nat option"
  minPrice :: "int option"
  maxPrice :: "int option"
  categoryId :: "int option"
  lastCategories :: "int list option"
  page :: "nat option"
  orderByType :: "string option"

text \<open>The defaults of the destructured parameter of \<open>findAll\<close>.\<close>

definition limit_of :: "'a FindAllProductsQueryDto_scheme \<Rightarrow> nat" where
  "limit_of dto = (case limit dto of None \<Rightarrow> 10 | Some n \<Rightarrow> n)"

definition minPrice_of :: "'a FindAllProductsQueryDto_scheme \<Rightarrow> int" where
  "minPrice_of dto = (case minPrice dto of None \<Rightarrow> 0 | Some n \<Rightarrow> n)"

definition maxPrice_of :: "'a FindAllProductsQueryDto_scheme \<Rightarrow> int" where
  "maxPrice_of dto = (case maxPrice dto of None \<Rightarrow> 99999999999999 | Some n \<Rightarrow> n)"

definition page_of :: "'a FindAllProductsQueryDto_scheme \<Rightarrow> nat" where
  "page_of dto = (case page dto of None \<Rightarrow> 0 | Some n \<Rightarrow> n)"

definition findAll_cacheKey :: "FindAllProductsQueryDto \<Rightarrow> ProductsCacheKey" where
  "findAll_cacheKey dto =
     getProductsCacheKey (orderByType dto) (orderBy dto) (limit_of dto) (page_of dto)
       (minPrice_of dto) (maxPrice_of dto) (categoryId dto) (lastCategories dto)"

text \<open>
  The sort expressions of the product listing: a column \<open>product.<name>\<close>, or
  \<open>CASE WHEN category.id IN (...) THEN 1 ELSE NULL END\<close>.
\<close>

datatype product_expr = ProductColumn string | CaseCategoryIn "int list"

text \<open>
  A clause of the product query as the reordering it makes. The name of a column is
  interpolated into the query as it is: a name that is no column of the table makes the
  database fail the query.
\<close>

definition product_clause ::
  "'v::linorder columns \<Rightarrow> product_expr order_clause \<Rightarrow> (Product list \<Rightarrow> Product list) option" where
  "product_clause cols clause =
     (case clause of
        (ProductColumn name, d, nl) \<Rightarrow>
          map_option (\<lambda>f. order_by (\<lambda>p. Some (f p)) d nl) (cols name)
      | (CaseCategoryIn cs, d, nl) \<Rightarrow>
          Some (order_by (\<lambda>p. case category p of
                                None \<Rightarrow> None
                              | Some c \<Rightarrow> if c \<in> set cs then Some (1 :: int) else None) d nl))"

record product_query = "product_expr select_query" +
  pq_minPrice :: int
  pq_maxPrice :: int
  pq_categoryId :: "int option"

definition product_where :: "product_query \<Rightarrow> Product \<Rightarrow> bool" where
  "product_where q p =
     (pq_minPrice q \<le> price p \<and> price p \<le> pq_maxPrice q \<and>
      (case pq_categoryId q of None \<Rightarrow> True | Some c \<Rightarrow> category p = Some c))"

definition getMany_products ::
  "'v::linorder columns \<Rightarrow> product_query \<Rightarrow> Product list \<Rightarrow> error + Product list" where
  "getMany_products cols q rows =
     (case resolve_clauses (product_clause cols) (q_order q) of
        None \<Rightarrow> Inl QueryFailedError
      | Some clauses \<Rightarrow>
          Inr (limit_offset (q_limit q) (q_offset q)
                 (order_rows clauses (filter (product_where q) rows))))"

text \<open>
  The query \<open>findAll\<close> builds on a cache miss, before LIMIT and OFFSET: the price
  filter, the category filter after the category was looked up, and the sort branch.
\<close>

definition findAll_query :: "state \<Rightarrow> FindAllProductsQueryDto \<Rightarrow> error + product_query" where
  "findAll_query s dto =
     (let products = \<lparr>q_order = [], q_limit = None, q_offset = None,
                       pq_minPrice = minPrice_of dto, pq_maxPrice = maxPrice_of dto,
                       pq_categoryId = None\<rparr>;
          filtered =
            (case categoryId dto of
               None \<Rightarrow> Inr products
             | Some cid \<Rightarrow>
                 if cid = 0 then Inr products
                 else
                   (case CategoriesService_findById s cid of
                      None \<Rightarrow> Inl (BadRequestException ''messages.category_does_not_exist'')
                    | Some c \<Rightarrow> Inr (products\<lparr>pq_categoryId := Some cid\<rparr>)))
      in case filtered of
           Inl e \<Rightarrow> Inl e
         | Inr products \<Rightarrow>
             if truthy_string (orderBy dto) then
               (case orderByType dto of
                  None \<Rightarrow> Inl TypeError
                | Some t \<Rightarrow>
                    orderBy_qb (ProductColumn (case orderBy dto of None \<Rightarrow> [] | Some c \<Rightarrow> c))
                      (toUpperCase t) None products)
             else
               (case lastCategories dto of
                  None \<Rightarrow> Inr products
                | Some cs \<Rightarrow>
                    if length cs > 0
                    then addOrderBy_qb (CaseCategoryIn cs) ''DESC'' (Some NULLS_LAST) products
                    else Inr products))"

definition ProductsService_findAll ::
  "'v::linorder columns \<Rightarrow> state \<Rightarrow> FindAllProductsQueryDto \<Rightarrow> (error + Product list) \<times> state" where
  "ProductsService_findAll cols s dto =
     (let cacheKey = findAll_cacheKey dto
      in case cache_get (productsCache s) (clock s) cacheKey of
           Some cachedProducts \<Rightarrow> (Inr cachedProducts, s)
         | None \<Rightarrow>
             (case findAll_query s dto of
                Inl e \<Rightarrow> (Inl e, s)
              | Inr products \<Rightarrow>
                  (case getMany_products cols
                          (products\<lparr>q_limit := Some (limit_of dto),
                                     q_offset := Some (limit_of dto * page_of dto)\<rparr>)
                          (productsRepo s) of
                     Inl e \<Rightarrow> (Inl e, s)
                   | Inr productsFromDb \<Rightarrow>
                       (Inr productsFromDb,
                        s\<lparr>productsCache :=
                            cache_set (productsCache s) (clock s) cacheKey productsFromDb
                              FOUR_MINUTES\<rparr>))))"

definition ProductsService_findById :: "state \<Rightarrow> int \<Rightarrow> (error + Product) \<times> state" where
  "ProductsService_findById s productId =
     (let cacheKey = getProductCacheKey productId
      in case cache_get (productCache s) (clock s) cacheKey of
           Some cachedProduct \<Rightarrow> (Inr cachedProduct, s)
         | None \<Rightarrow>
             (case find (\<lambda>p. product_id p = productId) (productsRepo s) of
                None \<Rightarrow> (Inl (BadRequestException ''messages.no_rows_updated''), s)
              | Some product \<Rightarrow>
                  (Inr product,
                   s\<lparr>productCache :=
                       cache_set (productCache s) (clock s) cacheKey product FOUR_MINUTES\<rparr>)))"

text \<open>
  Modelled from the spec: the DTO declarations are missing. A create DTO carries the
  columns of the new row and the id of its category; an update DTO carries the columns
  to overwrite, each optional.
\<close>

record CreateProductDto =
  create_price :: int
  create_categoryId :: int
  create_attributes :: string

record UpdateProductDto =
  update_price :: "int option"
  update_attributes :: "string option"

text \<open>The id the database generates for an inserted row: one above the largest id.\<close>

definition generated_id :: "int list \<Rightarrow> int" where
  "generated_id ids = fold max ids 0 + 1"

definition ProductsService_create ::
  "state \<Rightarrow> int \<Rightarrow> CreateProductDto \<Rightarrow> (error + int) \<times> state" where
  "ProductsService_create s userId createDto =
     (case CompaniesService_findByUserId s userId of
        None \<Rightarrow> (Inl (BadRequestException ''messages.user_company_is_null''), s)
      | Some company' \<Rightarrow>
          (case CategoriesService_findById s (create_categoryId createDto) of
             None \<Rightarrow> (Inl (BadRequestException ''messages.category_does_not_exist''), s)
           | Some category' \<Rightarrow>
               (let newId = generated_id (map product_id (productsRepo s))
                in (Inr newId,
                    s\<lparr>productsRepo := productsRepo s @
                         [\<lparr>product_id = newId, price = create_price createDto,
                           category = Some (create_categoryId createDto),
                           company = company_id company',
                           attributes = create_attributes createDto\<rparr>]\<rparr>))))"

definition apply_update :: "UpdateProductDto \<Rightarrow> Product \<Rightarrow> Product" where
  "apply_update dto p =
     p\<lparr>price := (case update_price dto of None \<Rightarrow> price p | Some v \<Rightarrow> v),
       attributes := (case update_attributes dto of None \<Rightarrow> attributes p | Some v \<Rightarrow> v)\<rparr>"

definition ProductsService_update ::
  "state \<Rightarrow> int \<Rightarrow> int \<Rightarrow> UpdateProductDto \<Rightarrow> (error + unit) \<times> state" where
  "ProductsService_update s userId productId updateDto =
     (case ProductsService_findById s productId of
        (Inl e, s1) \<Rightarrow> (Inl e, s1)
      | (Inr product, s1) \<Rightarrow>
          (case CompaniesService_findById s1 (company product) of
             None \<Rightarrow> (Inl (UnauthorizedException ''messages.user_does_not_own_company''), s1)
           | Some company' \<Rightarrow>
               if company_user company' \<noteq> userId
               then (Inl (UnauthorizedException ''messages.user_does_not_own_company''), s1)
               else
                 (let affected = length (filter (\<lambda>p. product_id p = productId) (productsRepo s1));
                      s2 = s1\<lparr>productsRepo :=
                                map (\<lambda>p. if product_id p = productId then apply_update updateDto p
                                          else p)
                                  (productsRepo s1)\<rparr>
                  in if affected = 0
                     then (Inl (InternalServerErrorException ''messages.no_rows_updated''), s2)
                     else (Inr (), s2))))"

definition ProductsService_delete :: "state \<Rightarrow> int \<Rightarrow> int \<Rightarrow> (error + unit) \<times> state" where
  "ProductsService_delete s userId productId =
     (case ProductsService_findById s productId of
        (Inl e, s1) \<Rightarrow> (Inl e, s1)
      | (Inr product, s1) \<Rightarrow>
          (case CompaniesService_findByUserId s1 userId of
             None \<Rightarrow> (Inl TypeError, s1)
           | Some company' \<Rightarrow>
               if company_user company' \<noteq> userId
               then (Inl (UnauthorizedException ''messages.user_does_not_own_company''), s1)
               else (Inr (),
                     s1\<lparr>productsRepo :=
                          filter (\<lambda>p. product_id p \<noteq> productId) (productsRepo s1)\<rparr>)))"

text \<open>
  The second variant of the service, without the cache and without the categories
  service: \<open>create\<close> looks up the company of the user and inserts. It passes no
  \<open>category\<close> relation to the insert, so the new row has none.
\<close>

definition ProductsService2_create ::
  "state \<Rightarrow> int \<Rightarrow> CreateProductDto \<Rightarrow> (error + int) \<times> state" where
  "ProductsService2_create s userId createDto =
     (case CompaniesService_findByUserId s userId of
        None \<Rightarrow> (Inl (BadRequestException ''messages.user_company_is_null''), s)
      | Some company' \<Rightarrow>
          (let newId = generated_id (map product_id (productsRepo s))
           in (Inr newId,
               s\<lparr>productsRepo := productsRepo s @
                    [\<lparr>product_id = newId, price = create_price createDto,
                      category = None,
                      company = company_id company',
                      attributes = create_attributes createDto\<rparr>]\<rparr>)))"

section \<open>ReviewsService\<close>

record FindAllReviewsQueryDto =
  rv_orderBy :: "string option"
  rv_orderByType :: "string option"
  rv_limit :: "nat option"
  rv_page :: "nat option"
  rv_productId :: int

definition rv_limit_of :: "'a FindAllReviewsQueryDto_scheme \<Rightarrow> nat" where
  "rv_limit_of dto = (case rv_limit dto of None \<Rightarrow> 10 | Some n \<Rightarrow> n)"

definition rv_page_of :: "'a FindAllReviewsQueryDto_scheme \<Rightarrow> nat" where
  "rv_page_of dto = (case rv_page dto of None \<Rightarrow> 0 | Some n \<Rightarrow> n)"

definition findByProduct_cacheKey :: "FindAllReviewsQueryDto \<Rightarrow> ReviewsCacheKey" where
  "findByProduct_cacheKey dto =
     getReviewsCacheKey (rv_productId dto) (rv_orderByType dto) (rv_orderBy dto)
       (rv_limit_of dto) (rv_page_of dto)"

text \<open>
  The review listing selects from \<open>review\<close> left-joined with its product. A row of the
  join is a review with the product it refers to, if that exists. The sort expressions
  are \<open>review.created_at\<close> and a column \<open>product.<name>\<close> of the joined product. The
  page is asked for with \<open>take\<close> and \<open>skip\<close>.
\<close>

datatype review_expr = ReviewCreatedAt | JoinedProductColumn string

type_synonym review_row = "Review \<times> Product option"

record review_query = "review_expr select_query" +
  rq_productId :: int
  rq_take :: "nat option"
  rq_skip :: "nat option"

definition leftJoin_product :: "Review list \<Rightarrow> Product list \<Rightarrow> review_row list" where
  "leftJoin_product reviews products =
     map (\<lambda>r. (r, find (\<lambda>p. product_id p = review_product r) products)) reviews"

definition review_where :: "review_query \<Rightarrow> review_row \<Rightarrow> bool" where
  "review_where q row =
     (case snd row of None \<Rightarrow> False | Some p \<Rightarrow> product_id p = rq_productId q)"

text \<open>
  A clause of the plain query, which sorts the joined rows themselves: a product column
  that the entity does not have makes the database fail the query.
\<close>

definition review_clause ::
  "'v::linorder columns \<Rightarrow> review_expr order_clause
     \<Rightarrow> (review_row list \<Rightarrow> review_row list) option" where
  "review_clause cols clause =
     (case clause of
        (ReviewCreatedAt, d, nl) \<Rightarrow> Some (order_by (\<lambda>row. Some (created_at (fst row))) d nl)
      | (JoinedProductColumn name, d, nl) \<Rightarrow>
          map_option (\<lambda>f. order_by (\<lambda>row. map_option f (snd row)) d nl) (cols name))"

text \<open>
  With joins and a truthy \<open>take\<close> or \<open>skip\<close> the query builder pages in two queries.
  The first selects the ids of the page from a subquery that holds the selected columns,
  here those of the review alone, as \<open>distinctAlias\<close>. It carries the ORDER BY clauses
  over to that alias: looking up the column of a clause raises a TypeError when the
  entity has no such property, and a product column, which the subquery does not select,
  makes the database fail the query.
\<close>

fun distinct_clauses ::
  "'v::linorder columns \<Rightarrow> review_expr order_clause list
     \<Rightarrow> error + (review_row list \<Rightarrow> review_row list) list" where
  "distinct_clauses cols [] = Inr []"
| "distinct_clauses cols ((ReviewCreatedAt, d, nl) # clauses) =
     (case distinct_clauses cols clauses of
        Inl e \<Rightarrow> Inl e
      | Inr rest \<Rightarrow> Inr (order_by (\<lambda>row. Some (created_at (fst row))) d nl # rest))"
| "distinct_clauses cols ((JoinedProductColumn name, d, nl) # clauses) =
     (case cols name of
        None \<Rightarrow> Inl TypeError
      | Some f \<Rightarrow>
          (case distinct_clauses cols clauses of
             Inl TypeError \<Rightarrow> Inl TypeError
           | Inl e \<Rightarrow> Inl QueryFailedError
           | Inr rest \<Rightarrow> Inl QueryFailedError))"

definition paginated :: "review_query \<Rightarrow> bool" where
  "paginated q =
     ((case rq_skip q of None \<Rightarrow> False | Some n \<Rightarrow> n \<noteq> 0) \<or>
      (case rq_take q of None \<Rightarrow> False | Some n \<Rightarrow> n \<noteq> 0))"

text \<open>
  \<open>getMany\<close> on the review query. Paged: the ids of the page are taken in the order of
  the clauses and then of the id, ascending; the second query loads the rows with these
  ids in the order of the clauses (none at all when there is no id). Not paged: one query
  in the order of the clauses, and since there are joins no LIMIT or OFFSET is written
  from \<open>take\<close> and \<open>skip\<close>.
\<close>

definition getMany_reviews ::
  "'v::linorder columns \<Rightarrow> review_query \<Rightarrow> Review list \<Rightarrow> Product list
     \<Rightarrow> error + Review list" where
  "getMany_reviews cols q reviews products =
     (let joined = filter (review_where q) (leftJoin_product reviews products)
      in if paginated q then
           (case distinct_clauses cols (q_order q) of
              Inl e \<Rightarrow> Inl e
            | Inr clauses \<Rightarrow>
                (let ids = map (\<lambda>row. review_id (fst row))
                             (limit_offset (rq_take q) (rq_skip q)
                                (order_rows
                                   (clauses @ [order_by (\<lambda>row. Some (review_id (fst row))) ASC None])
                                   joined))
                 in if ids = [] then Inr []
                    else Inr (map fst
                                (order_rows clauses
                                   (filter (\<lambda>row. review_id (fst row) \<in> set ids) joined)))))
         else
           (case resolve_clauses (review_clause cols) (q_order q) of
              None \<Rightarrow> Inl QueryFailedError
            | Some clauses \<Rightarrow>
                Inr (map fst (limit_offset (q_limit q) (q_offset q) (order_rows clauses joined)))))"

definition findByProduct_query :: "FindAllReviewsQueryDto \<Rightarrow> error + review_query" where
  "findByProduct_query dto =
     (case orderBy_qb ReviewCreatedAt ''DESC'' None
             \<lparr>q_order = [], q_limit = None, q_offset = None,
              rq_productId = rv_productId dto, rq_take = None, rq_skip = None\<rparr> of
        Inl e \<Rightarrow> Inl e
      | Inr ordered \<Rightarrow>
          (let reviews = ordered\<lparr>rq_take := Some (rv_limit_of dto),
                                 rq_skip := Some (rv_limit_of dto * rv_page_of dto)\<rparr>
           in if truthy_string (rv_orderBy dto) then
                (case rv_orderByType dto of
                   None \<Rightarrow> Inl TypeError
                 | Some t \<Rightarrow>
                     addOrderBy_qb
                       (JoinedProductColumn (case rv_orderBy dto of None \<Rightarrow> [] | Some c \<Rightarrow> c))
                       (toUpperCase t) None reviews)
              else Inr reviews))"

text \<open>
  \<open>findByProduct\<close> calls \<open>getMany\<close> twice. The promise of the first call goes to
  \<open>cache.set\<close> as it is, with a time to live of 240: the store writes the entry at
  once, and what it keeps of the promise is the empty object. The promise of the second
  call is what the method returns: its page, or the error the query raises. On a cache
  hit the method returns what the cache holds.
\<close>

definition ReviewsService_findByProduct ::
  "'v::linorder columns \<Rightarrow> state \<Rightarrow> FindAllReviewsQueryDto
     \<Rightarrow> (error + reviews_result) \<times> state" where
  "ReviewsService_findByProduct cols s dto =
     (let cacheKey = findByProduct_cacheKey dto
      in case cache_get (reviewsCache s) (clock s) cacheKey of
           Some cachedReviews \<Rightarrow> (Inr cachedReviews, s)
         | None \<Rightarrow>
             (case findByProduct_query dto of
                Inl e \<Rightarrow> (Inl e, s)
              | Inr reviews \<Rightarrow>
                  (let s1 = s\<lparr>reviewsCache :=
                                cache_set (reviewsCache s) (clock s) cacheKey EmptyObject 240\<rparr>
                   in case getMany_reviews cols reviews (reviewsRepo s1) (productsRepo s1) of
                        Inl e \<Rightarrow> (Inl e, s1)
                      | Inr rows \<Rightarrow> (Inr (Page rows), s1))))"

definition ReviewsService_findById :: "state \<Rightarrow> int \<Rightarrow> (error + Review option) \<times> state" where
  "ReviewsService_findById s reviewId =
     (let cacheKey = getReviewCacheKey reviewId
      in case cache_get (reviewCache s) (clock s) cacheKey of
           Some cachedReview \<Rightarrow> (Inr (Some cachedReview), s)
         | None \<Rightarrow> (Inr (find (\<lambda>r. review_id r = reviewId) (reviewsRepo s)), s))"

record UpdateReviewDto =
  update_body :: "string option"

definition apply_review_update :: "UpdateReviewDto \<Rightarrow> Review \<Rightarrow> Review" where
  "apply_review_update dto r =
     r\<lparr>body := (case update_body dto of None \<Rightarrow> body r | Some v \<Rightarrow> v)\<rparr>"

definition ReviewsService_update ::
  "state \<Rightarrow> int \<Rightarrow> int \<Rightarrow> UpdateReviewDto \<Rightarrow> (error + unit) \<times> state" where
  "ReviewsService_update s userId reviewId dto =
     (case ReviewsService_findById s reviewId of
        (Inl e, s1) \<Rightarrow> (Inl e, s1)
      | (Inr None, s1) \<Rightarrow> (Inl TypeError, s1)
      | (Inr (Some review), s1) \<Rightarrow>
          if review_user review \<noteq> userId
          then (Inl (ForbiddenException ''messages.forbidden_update_review''), s1)
          else (Inr (),
                s1\<lparr>reviewsRepo :=
                     map (\<lambda>r. if review_id r = reviewId then apply_review_update dto r else r)
                       (reviewsRepo s1)\<rparr>))"

definition ReviewsService_delete :: "state \<Rightarrow> int \<Rightarrow> int \<Rightarrow> (error + unit) \<times> state" where
  "ReviewsService_delete s userId reviewId =
     (case ReviewsService_findById s reviewId of
        (Inl e, s1) \<Rightarrow> (Inl e, s1)
      | (Inr None, s1) \<Rightarrow> (Inl TypeError, s1)
      | (Inr (Some review), s1) \<Rightarrow>
          if review_user review \<noteq> userId
          then (Inl (ForbiddenException ''messages.forbidden_delete_review''), s1)
          else (Inr (),
                s1\<lparr>reviewsRepo := filter (\<lambda>r. review_id r \<noteq> reviewId) (reviewsRepo s1)\<rparr>))"

section \<open>Properties of states and requests\<close>

text \<open>
  The category filter of a listing passes: no category is asked for (the id is absent or
  falsy), or the categories service finds it.
\<close>

definition category_filter_ok :: "state \<Rightarrow> FindAllProductsQueryDto \<Rightarrow> bool" where
  "category_filter_ok s dto =
     (case categoryId dto of
        None \<Rightarrow> True
      | Some cid \<Rightarrow> if cid = 0 then True else CategoriesService_findById s cid \<noteq> None)"

text \<open>
  What the product listing leaves in the cache: every page cached for a product listing
  holds only products priced within the bounds of its key. A page of reviews is newest
  first when it is in descending order of creation time.
\<close>

fun key_minPrice :: "ProductsCacheKey \<Rightarrow> int" where
  "key_minPrice (ProductsCacheKey ot ob l pg lo hi c lc) = lo"

fun key_maxPrice :: "ProductsCacheKey \<Rightarrow> int" where
  "key_maxPrice (ProductsCacheKey ot ob l pg lo hi c lc) = hi"

definition price_between :: "int \<Rightarrow> int \<Rightarrow> Product list \<Rightarrow> bool" where
  "price_between lo hi rows = list_all (\<lambda>p. lo \<le> price p \<and> price p \<le> hi) rows"

definition products_cache_in_range :: "(ProductsCacheKey, Product list) cache \<Rightarrow> bool" where
  "products_cache_in_range c =
     list_all (\<lambda>entry. price_between (key_minPrice (fst entry)) (key_maxPrice (fst entry))
                          (fst (snd entry))) c"

definition newest_first :: "Review list \<Rightarrow> bool" where
  "newest_first rows = sorted_wrt (\<lambda>a b. created_at b \<le> created_at a) rows"

text \<open>
  The price filter in the words of the specification: the bounds default to 0 and to
  no upper bound at all.
\<close>

definition spec_price_filter :: "FindAllProductsQueryDto \<Rightarrow> Product \<Rightarrow> bool" where
  "spec_price_filter dto p =
     ((case minPrice dto of None \<Rightarrow> 0 | Some lo \<Rightarrow> lo) \<le> price p \<and>
      (case maxPrice dto of None \<Rightarrow> True | Some hi \<Rightarrow> price p \<le> hi))"

text \<open>A product is in one of the last viewed categories.\<close>

definition in_lastCategories :: "int list \<Rightarrow> Product \<Rightarrow> bool" where
  "in_lastCategories cs p = (case category p of None \<Rightarrow> False | Some c \<Rightarrow> c \<in> set cs)"

section \<open>A small shop\<close>

text \<open>
  Two companies, owned by the users 10 and 20; two categories; three products, the third
  priced above the default upper bound of the listing; two reviews of product 2. The
  cache is empty.
\<close>

definition toy :: Product where
  "toy = \<lparr>product_id = 1, price = 15, category = Some 5, company = 1, attributes = ''toy''\<rparr>"

definition book :: Product where
  "book = \<lparr>product_id = 2, price = 20, category = Some 3, company = 1, attributes = ''book''\<rparr>"

definition yacht :: Product where
  "yacht = \<lparr>product_id = 3, price = 100000000000000, category = Some 3, company = 2,
            attributes = ''yacht''\<rparr>"

definition early_review :: Review where
  "early_review = \<lparr>review_id = 1, review_product = 2, review_user = 10, created_at = 100,
                   body = ''fine''\<rparr>"

definition late_review :: Review where
  "late_review = \<lparr>review_id = 2, review_product = 2, review_user = 20, created_at = 200,
                  body = ''great''\<rparr>"

definition shop :: state where
  "shop =
     \<lparr>productsRepo = [toy, book, yacht],
      reviewsRepo = [early_review, late_review],
      companiesRepo = [\<lparr>company_id = 1, company_user = 10\<rparr>, \<lparr>company_id = 2, company_user = 20\<rparr>],
      categoriesRepo = [\<lparr>category_id = 3, title = ''books''\<rparr>, \<lparr>category_id = 5, title = ''toys''\<rparr>],
      productsCache = [], productCache = [], reviewsCache = [], reviewCache = [],
      clock = 1000\<rparr>"

text \<open>
  Two tables of columns for the products of the shop: the numeric columns \<open>id\<close> and
  \<open>price\<close>, and the text column \<open>attributes\<close>.
\<close>

definition number_columns :: "int columns" where
  "number_columns name =
     (if name = ''id'' then Some product_id
      else if name = ''price'' then Some price
      else None)"

definition text_columns :: "string columns" where
  "text_columns name = (if name = ''attributes'' then Some attributes else None)"

definition any_products :: FindAllProductsQueryDto where
  "any_products =
     \<lparr>orderBy = None, limit = None, minPrice = None, maxPrice = None, categoryId = None,
      lastCategories = None, page = None, orderByType = None\<rparr>"

definition any_reviews :: FindAllReviewsQueryDto where
  "any_reviews =
     \<lparr>rv_orderBy = None, rv_orderByType = None, rv_limit = None, rv_page = None,
      rv_productId = 2\<rparr>"

text \<open>
  Requests: the products by descending price (with a last viewed category that the
  explicit sort must leave aside); the products by ascending attributes; the products
  priced from 10 to 50 with category 3 last viewed, the example of section 8 of the
  specification; the reviews of product 2 with a secondary sort by the price of the
  product, with the default page size and with a page size of 0, and with a secondary
  sort by a column that no product has.
\<close>

definition by_price_desc :: FindAllProductsQueryDto where
  "by_price_desc =
     any_products\<lparr>orderBy := Some ''price'', orderByType := Some ''desc'',
                   lastCategories := Some [5]\<rparr>"

definition last_viewed_books :: FindAllProductsQueryDto where
  "last_viewed_books =
     any_products\<lparr>minPrice := Some 10, maxPrice := Some 50, lastCategories := Some [3]\<rparr>"

definition by_attributes_asc :: FindAllProductsQueryDto where
  "by_attributes_asc = any_products\<lparr>orderBy := Some ''attributes'', orderByType := Some ''asc''\<rparr>"

definition by_product_price :: FindAllReviewsQueryDto where
  "by_product_price = any_reviews\<lparr>rv_orderBy := Some ''price'', rv_orderByType := Some ''asc''\<rparr>"

definition by_product_price_unpaged :: FindAllReviewsQueryDto where
  "by_product_price_unpaged = by_product_price\<lparr>rv_limit := Some 0\<rparr>"

definition by_product_colour :: FindAllReviewsQueryDto where
  "by_product_colour = any_reviews\<lparr>rv_orderBy := Some ''colour'', rv_orderByType := Some ''asc''\<rparr>"

text \<open>
  The shop after the product listing and after the review listing have written to the
  cache; a state 239 ticks later in which both tables have lost every row; a state 100
  ticks later with the tables as they were.
\<close>

definition listed :: state where
  "listed = shop\<lparr>productsCache := [(findAll_cacheKey any_products, [toy, book], 1240)]\<rparr>"

definition reviewed :: state where
  "reviewed = shop\<lparr>reviewsCache := [(findByProduct_cacheKey any_reviews, EmptyObject, 1240)]\<rparr>"

definition emptied :: "state \<Rightarrow> state" where
  "emptied s = s\<lparr>productsRepo := [], reviewsRepo := [], clock := clock s + 239\<rparr>"

definition later :: "state \<Rightarrow> state" where
  "later s = s\<lparr>clock := clock s + 100\<rparr>"

section \<open>Authorization of mutations\<close>

text \<open>
  \<open>update\<close> of a product resolves the company of the product and compares its owner
  with the acting user: another user gets Unauthorized and the table is as it was.
\<close>

lemma ProductsService_update_non_owner:
  assumes found: "fst (ProductsService_findById s productId) = Inr product"
    and owner: "CompaniesService_findById s (company product) = Some c"
    and other: "company_user c \<noteq> userId"
  shows "fst (ProductsService_update s userId productId dto) =
           Inl (UnauthorizedException ''messages.user_does_not_own_company'') \<and>
         productsRepo (snd (ProductsService_update s userId productId dto)) = productsRepo s"
proof -
  obtain s1 where s1: "ProductsService_findById s productId = (Inr product, s1)"
    using found by (cases "ProductsService_findById s productId") auto
  then have same: "productsRepo s1 = productsRepo s" "companiesRepo s1 = companiesRepo s"
    by (auto simp add: ProductsService_findById_def Let_def split: option.splits)
  then have "CompaniesService_findById s1 (company product) = Some c"
    using owner by (simp add: CompaniesService_findById_def)
  with s1 other same show ?thesis
    by (simp add: ProductsService_update_def)
qed

text \<open>
  \<open>delete\<close> of a product asks for the company of the acting user instead. That
  company is owned by the acting user, whoever owns the product: the comparison never
  fails, and every user with a company deletes any product.
\<close>

lemma ProductsService_delete_any_company:
  assumes found: "fst (ProductsService_findById s productId) = Inr product"
    and own: "CompaniesService_findByUserId s userId = Some c"
  shows "fst (ProductsService_delete s userId productId) = Inr () \<and>
         find (\<lambda>p. product_id p = productId)
           (productsRepo (snd (ProductsService_delete s userId productId))) = None"
proof -
  obtain s1 where s1: "ProductsService_findById s productId = (Inr product, s1)"
    using found by (cases "ProductsService_findById s productId") auto
  then have "companiesRepo s1 = companiesRepo s"
    by (auto simp add: ProductsService_findById_def Let_def split: option.splits)
  with own have c: "CompaniesService_findByUserId s1 userId = Some c"
    by (simp add: CompaniesService_findByUserId_def)
  then have "company_user c = userId"
    by (auto simp add: CompaniesService_findByUserId_def find_Some_iff)
  with s1 c show ?thesis
    by (simp add: ProductsService_delete_def find_None_iff)
qed

text \<open>
  C1. A product mutation by a user who does not own the company of the product should
  fail with Unauthorized and leave the row. \<open>delete\<close> does not: it looks up the
  company of the acting user, not of the product, and compares that company's owner with
  the acting user. In the shop, user 20 owns company 2; the toy belongs to company 1 of
  user 10; user 20 deletes the toy and the row is gone.
\<close>

theorem ProductsService_delete_by_non_owner:
  "ProductsService_delete shop 20 1 =
     (Inr (), shop\<lparr>productsRepo := [book, yacht], productCache := [(1, toy, 1240)]\<rparr>) \<and>
   find (\<lambda>p. product_id p = 1) (productsRepo shop) = Some toy \<and>
   CompaniesService_findById shop (company toy) = Some \<lparr>company_id = 1, company_user = 10\<rparr>"
  by code_simp

text \<open>
  C2. When the review that \<open>findById\<close> resolves has an author other than the acting
  user, \<open>update\<close> and \<open>delete\<close> of ReviewsService both fail with Forbidden, and the
  state (so the review row) is unchanged.
\<close>

theorem ReviewsService_non_author_forbidden:
  assumes found: "fst (ReviewsService_findById s reviewId) = Inr (Some review)"
    and other: "review_user review \<noteq> userId"
  shows "ReviewsService_update s userId reviewId dto =
           (Inl (ForbiddenException ''messages.forbidden_update_review''), s) \<and>
         ReviewsService_delete s userId reviewId =
           (Inl (ForbiddenException ''messages.forbidden_delete_review''), s)"
proof -
  from found have "ReviewsService_findById s reviewId = (Inr (Some review), s)"
    by (auto simp add: ReviewsService_findById_def Let_def split: option.splits)
  with other show ?thesis
    by (simp add: ReviewsService_update_def ReviewsService_delete_def)
qed

text \<open>In the shop, user 20 may neither update nor delete the review of user 10.\<close>

theorem ReviewsService_non_author_forbidden_witness:
  "fst (ReviewsService_findById shop 1) = Inr (Some early_review) \<and>
   review_user early_review \<noteq> 20 \<and>
   ReviewsService_update shop 20 1 \<lparr>update_body = Some ''bad''\<rparr> =
     (Inl (ForbiddenException ''messages.forbidden_update_review''), shop) \<and>
   ReviewsService_delete shop 20 1 =
     (Inl (ForbiddenException ''messages.forbidden_delete_review''), shop) \<and>
   find (\<lambda>r. review_id r = 1) (reviewsRepo shop) = Some early_review"
proof -
  have found: "fst (ReviewsService_findById shop 1) = Inr (Some early_review)"
    by code_simp
  have other: "review_user early_review \<noteq> 20"
    by code_simp
  have row: "find (\<lambda>r. review_id r = 1) (reviewsRepo shop) = Some early_review"
    by code_simp
  from ReviewsService_non_author_forbidden [OF found other] found other row
  show ?thesis by simp
qed

section \<open>Validation of the sort direction\<close>

text \<open>
  C5, as the code has it. The pipe compares the token with \<open>asc\<close> and \<open>desc\<close> as
  they are written: exactly these two pass, as do an absent value and the empty string;
  every other token, also \<open>asc\<close> or \<open>desc\<close> in another letter case, is rejected with
  BadRequest.
\<close>

theorem OrderByTypePipe_exact_tokens:
  "OrderByTypePipe_transform v =
     (if v = None \<or> v = Some [] \<or> v = Some ''asc'' \<or> v = Some ''desc'' then Inr v
      else Inl (BadRequestException ''messages.invalid_order_by_type''))"
  by (auto simp add: OrderByTypePipe_transform_def split: option.splits)

text \<open>
  C5 as stated fails: the upper-case \<open>DESC\<close> and the capitalised \<open>Asc\<close> are rejected.
\<close>

theorem OrderByTypePipe_rejects_upper_case:
  "OrderByTypePipe_transform (Some ''DESC'') =
     Inl (BadRequestException ''messages.invalid_order_by_type'') \<and>
   OrderByTypePipe_transform (Some ''Asc'') =
     Inl (BadRequestException ''messages.invalid_order_by_type'')"
  by (simp add: OrderByTypePipe_transform_def)

section \<open>Creating a product\<close>

text \<open>
  C6, as the code has it. In the variant of \<open>create\<close> that has the categories
  service, a category id that the service does not find makes the call fail with
  BadRequest (for the missing company of the user, or else for the missing category) and
  the state is unchanged: nothing is inserted. The second variant never looks the
  category up: whenever the user has a company it returns an id and the table has one row
  more.
\<close>

theorem ProductsService_create_checks_category:
  "(CategoriesService_findById s (create_categoryId dto) = None \<longrightarrow>
      ProductsService_create s userId dto =
        (Inl (BadRequestException
               (if CompaniesService_findByUserId s userId = None
                then ''messages.user_company_is_null''
                else ''messages.category_does_not_exist'')), s)) \<and>
   (CompaniesService_findByUserId s userId \<noteq> None \<longrightarrow>
      (\<exists>newId. fst (ProductsService2_create s userId dto) = Inr newId \<and>
         length (productsRepo (snd (ProductsService2_create s userId dto))) =
           Suc (length (productsRepo s))))"
  by (auto simp add: ProductsService_create_def ProductsService2_create_def Let_def
        split: option.splits)

text \<open>In the shop no category has the id 99, and user 10 has a company.\<close>

theorem ProductsService_create_checks_category_witness:
  "CategoriesService_findById shop 99 = None \<and>
   CompaniesService_findByUserId shop 10 \<noteq> None \<and>
   ProductsService_create shop 10
       \<lparr>create_price = 5, create_categoryId = 99, create_attributes = ''pen''\<rparr> =
     (Inl (BadRequestException ''messages.category_does_not_exist''), shop) \<and>
   length (productsRepo (snd (ProductsService2_create shop 10
       \<lparr>create_price = 5, create_categoryId = 99, create_attributes = ''pen''\<rparr>))) = 4"
proof -
  have none: "CategoriesService_findById shop 99 = None"
    by code_simp
  have some: "CompaniesService_findByUserId shop 10 \<noteq> None"
    by code_simp
  have rows: "length (productsRepo shop) = 3"
    by code_simp
  from ProductsService_create_checks_category
         [of shop "\<lparr>create_price = 5, create_categoryId = 99, create_attributes = ''pen''\<rparr>" 10]
       none some rows
  show ?thesis by simp
qed

text \<open>
  C6 as stated fails on the second variant: with a category id that no category has, it
  inserts the row and returns its id.
\<close>

theorem ProductsService2_create_inserts_unchecked:
  "CategoriesService_findById shop 99 = None \<and>
   fst (ProductsService2_create shop 10
          \<lparr>create_price = 5, create_categoryId = 99, create_attributes = ''pen''\<rparr>) = Inr 4 \<and>
   map product_id (productsRepo shop) = [1, 2, 3] \<and>
   map product_id
     (productsRepo (snd (ProductsService2_create shop 10
        \<lparr>create_price = 5, create_categoryId = 99, create_attributes = ''pen''\<rparr>))) =
     [1, 2, 3, 4]"
  by code_simp

section \<open>The sort branch without a direction\<close>

text \<open>
  C9. On a cache miss with an explicit \<open>orderBy\<close> column and no \<open>orderByType\<close>,
  \<open>findAll\<close> does not return a page: once the category filter has passed, the call
  \<open>orderByType.toUpperCase()\<close> raises a TypeError (and when the category is missing
  the BadRequest of the filter comes first). The state is unchanged.
\<close>

theorem findAll_orderBy_needs_orderByType:
  assumes miss: "cache_get (productsCache s) (clock s) (findAll_cacheKey dto) = None"
    and col: "truthy_string (orderBy dto)"
    and dir: "orderByType dto = None"
  shows "ProductsService_findAll cols s dto =
           (Inl (if category_filter_ok s dto then TypeError
                 else BadRequestException ''messages.category_does_not_exist''), s)"
  using assms
  by (auto simp add: ProductsService_findAll_def findAll_query_def category_filter_ok_def Let_def
        split: option.splits sum.splits)

text \<open>Listing the shop by price without a direction raises the TypeError.\<close>

theorem findAll_orderBy_needs_orderByType_witness:
  "cache_get (productsCache shop) (clock shop)
     (findAll_cacheKey (any_products\<lparr>orderBy := Some ''price''\<rparr>)) = None \<and>
   truthy_string (orderBy (any_products\<lparr>orderBy := Some ''price''\<rparr>)) \<and>
   orderByType (any_products\<lparr>orderBy := Some ''price''\<rparr>) = None \<and>
   category_filter_ok shop (any_products\<lparr>orderBy := Some ''price''\<rparr>) \<and>
   ProductsService_findAll number_columns shop (any_products\<lparr>orderBy := Some ''price''\<rparr>) =
     (Inl TypeError, shop)"
proof -
  let ?dto = "any_products\<lparr>orderBy := Some ''price''\<rparr>"
  have miss: "cache_get (productsCache shop) (clock shop) (findAll_cacheKey ?dto) = None"
    by code_simp
  have col: "truthy_string (orderBy ?dto)"
    by code_simp
  have dir: "orderByType ?dto = None"
    by code_simp
  have ok: "category_filter_ok shop ?dto"
    by code_simp
  from findAll_orderBy_needs_orderByType [OF miss col dir, of number_columns] ok miss col dir
  show ?thesis by simp
qed

section \<open>Looking a review up\<close>

text \<open>
  C10. \<open>findById\<close> of ReviewsService never raises and never changes the state, so it
  writes nothing to the cache; on a cache miss its result is the lookup of the
  repository itself, \<open>None\<close> when no review has the id. \<open>findById\<close> of
  ProductsService on a cache miss raises BadRequest when no product has the id, and
  otherwise writes the product it found to the cache.
\<close>

theorem ReviewsService_findById_unchecked:
  "(\<exists>r. ReviewsService_findById s i = (Inr r, s)) \<and>
   (cache_get (reviewCache s) (clock s) (getReviewCacheKey i) = None \<longrightarrow>
      ReviewsService_findById s i = (Inr (find (\<lambda>r. review_id r = i) (reviewsRepo s)), s)) \<and>
   (cache_get (productCache s) (clock s) (getProductCacheKey i) = None \<longrightarrow>
      (case find (\<lambda>p. product_id p = i) (productsRepo s) of
         None \<Rightarrow>
           ProductsService_findById s i =
             (Inl (BadRequestException ''messages.no_rows_updated''), s)
       | Some p \<Rightarrow>
           ProductsService_findById s i =
             (Inr p,
              s\<lparr>productCache :=
                  (getProductCacheKey i, p, clock s + FOUR_MINUTES) # productCache s\<rparr>)))"
  by (auto simp add: ReviewsService_findById_def ProductsService_findById_def cache_set_def
        Let_def split: option.splits)

text \<open>
  In the shop nothing has the id 7: the review lookup returns \<open>None\<close>, the product
  lookup raises.
\<close>

theorem ReviewsService_findById_unchecked_witness:
  "cache_get (reviewCache shop) (clock shop) (getReviewCacheKey 7) = None \<and>
   cache_get (productCache shop) (clock shop) (getProductCacheKey 7) = None \<and>
   ReviewsService_findById shop 7 = (Inr None, shop) \<and>
   ProductsService_findById shop 7 =
     (Inl (BadRequestException ''messages.no_rows_updated''), shop)"
proof -
  have r: "cache_get (reviewCache shop) (clock shop) (getReviewCacheKey 7) = None"
    by code_simp
  have p: "cache_get (productCache shop) (clock shop) (getProductCacheKey 7) = None"
    by code_simp
  have nr: "find (\<lambda>r. review_id r = 7) (reviewsRepo shop) = None"
    by code_simp
  have np: "find (\<lambda>p. product_id p = 7) (productsRepo shop) = None"
    by code_simp
  from ReviewsService_findById_unchecked [of shop 7] r p nr np
  show ?thesis by simp
qed

section \<open>Executing a query\<close>

text \<open>
  What holds of the rows a query returns, whatever the table: LIMIT and OFFSET keep an
  order and add no row; one ORDER BY clause keeps the rows and leaves them in the order
  of its column, with the rows that have a value before the rows that have none when
  NULLs go last.
\<close>

lemma limit_offset_sorted_wrt:
  "sorted_wrt P rows \<Longrightarrow> sorted_wrt P (limit_offset lim off rows)"
  by (simp add: limit_offset_def Let_def split: option.splits)

lemma set_limit_offset: "set (limit_offset lim off rows) \<subseteq> set rows"
proof -
  have "set (take n (drop m rows)) \<subseteq> set rows" for n m
    using set_take_subset [of n "drop m rows"] set_drop_subset [of m rows] by blast
  moreover have "set (take n rows) \<subseteq> set rows" for n
    by (rule set_take_subset)
  moreover have "set (drop m rows) \<subseteq> set rows" for m
    by (rule set_drop_subset)
  ultimately show ?thesis
    by (simp add: limit_offset_def Let_def split: option.splits)
qed

lemma set_order_by: "set (order_by f d nl rows) = set rows"
  by (cases d) (auto simp add: order_by_def Let_def)

lemma order_by_column_sorted:
  "sorted_wrt (\<lambda>a b. case d of ASC \<Rightarrow> g a \<le> g b | DESC \<Rightarrow> g b \<le> g a)
     (order_by (\<lambda>r. Some (g r)) d nl rows)"
proof (cases d)
  case ASC
  have "sorted (map (\<lambda>r. Some (g r)) (sort_key (\<lambda>r. Some (g r)) rows))"
    by (rule sorted_sort_key)
  then have "sorted_wrt (\<lambda>a b. g a \<le> g b) (sort_key (\<lambda>r. Some (g r)) rows)"
    by (simp add: sorted_map)
  with ASC show ?thesis
    by (simp add: order_by_def Let_def)
next
  case DESC
  have "sorted (map (\<lambda>r. Some (g r)) (sort_key (\<lambda>r. Some (g r)) (rev rows)))"
    by (rule sorted_sort_key)
  then have "sorted_wrt (\<lambda>a b. g a \<le> g b) (sort_key (\<lambda>r. Some (g r)) (rev rows))"
    by (simp add: sorted_map)
  then have "sorted_wrt (\<lambda>a b. g b \<le> g a) (rev (sort_key (\<lambda>r. Some (g r)) (rev rows)))"
    by (simp add: sorted_wrt_rev)
  with DESC show ?thesis
    by (simp add: order_by_def Let_def)
qed

lemma order_by_nulls_last:
  assumes "nulls_last d nl"
  shows "sorted_wrt (\<lambda>a b. f b \<noteq> None \<longrightarrow> f a \<noteq> None) (order_by f d nl rows)"
proof -
  define present where "present = filter (\<lambda>r. f r \<noteq> None) rows"
  define ordered where
    "ordered = (case d of ASC \<Rightarrow> sort_key f present | DESC \<Rightarrow> rev (sort_key f (rev present)))"
  have set_ordered: "set ordered = set present"
    by (cases d) (simp_all add: ordered_def)
  have all_present: "\<forall>r \<in> set ordered. f r \<noteq> None"
    unfolding set_ordered present_def by simp
  then have "sorted_wrt (\<lambda>a b. f b \<noteq> None \<longrightarrow> f a \<noteq> None) ordered"
    by (simp add: sorted_wrt_iff_nth_less)
  moreover have "sorted_wrt (\<lambda>a b. f b \<noteq> None \<longrightarrow> f a \<noteq> None) (filter (\<lambda>r. f r = None) rows)"
    by (induction rows) auto
  ultimately have "sorted_wrt (\<lambda>a b. f b \<noteq> None \<longrightarrow> f a \<noteq> None)
                     (ordered @ filter (\<lambda>r. f r = None) rows)"
    using all_present by (auto simp add: sorted_wrt_append)
  with assms show ?thesis
    unfolding order_by_def Let_def ordered_def present_def by simp
qed

lemma resolve_clauses_Cons:
  "resolve_clauses res (clause # clauses) = Some resolved \<Longrightarrow>
     \<exists>first rest. res clause = Some first \<and> resolved = first # rest"
  by (auto split: option.splits)

lemma resolve_clauses_length:
  "resolve_clauses res clauses = Some resolved \<Longrightarrow> length resolved = length clauses"
  by (induction clauses arbitrary: resolved) (auto split: option.splits)

text \<open>A later clause breaks the ties of an earlier one and nothing else.\<close>

lemma order_rows_tie_break:
  "order_rows [order_by (\<lambda>r. Some (fst r)) ASC None, order_by (\<lambda>r. Some (snd r)) DESC None]
     [(1 :: int, 1 :: int), (0, 5), (1, 7)] = [(0, 5), (1, 7), (1, 1)]"
  by code_simp

lemma cache_get_after_set:
  "t' < t + ttl \<Longrightarrow> cache_get (cache_set c t k v ttl) t' k = Some v"
  by (simp add: cache_get_def cache_set_def)

subsection \<open>The product query\<close>

lemma set_product_clauses:
  "resolve_clauses (product_clause cols) clauses = Some resolved \<Longrightarrow>
     set (order_rows resolved rows) = set rows"
proof (induction clauses arbitrary: resolved)
  case Nil
  then show ?case by simp
next
  case (Cons clause clauses)
  then obtain first rest where first: "product_clause cols clause = Some first"
    and rest: "resolve_clauses (product_clause cols) clauses = Some rest"
    and resolved: "resolved = first # rest"
    by (auto split: option.splits)
  from first have "set (first xs) = set xs" for xs
    by (auto simp add: product_clause_def set_order_by split: prod.splits product_expr.splits)
  with Cons.IH [OF rest] resolved show ?case
    by simp
qed

lemma getMany_products_rows:
  assumes run: "getMany_products cols q repo = Inr rows"
  shows "\<exists>clauses. resolve_clauses (product_clause cols) (q_order q) = Some clauses \<and>
           rows = limit_offset (q_limit q) (q_offset q)
                    (order_rows clauses (filter (product_where q) repo))"
  using run by (auto simp add: getMany_products_def split: option.splits)

lemma getMany_products_where:
  assumes run: "getMany_products cols q repo = Inr rows"
  shows "set rows \<subseteq> {p \<in> set repo. product_where q p}"
proof -
  from getMany_products_rows [OF run] obtain clauses where
    clauses: "resolve_clauses (product_clause cols) (q_order q) = Some clauses" and
    rows: "rows = limit_offset (q_limit q) (q_offset q)
                    (order_rows clauses (filter (product_where q) repo))"
    by blast
  from rows show ?thesis
    using set_limit_offset
            [of "q_limit q" "q_offset q" "order_rows clauses (filter (product_where q) repo)"]
    by (auto simp add: set_product_clauses [OF clauses])
qed

lemma getMany_products_single:
  assumes run: "getMany_products cols q repo = Inr rows"
    and only: "q_order q = [clause]"
  shows "\<exists>sorter. product_clause cols clause = Some sorter \<and>
           rows = limit_offset (q_limit q) (q_offset q) (sorter (filter (product_where q) repo))"
  using run only
  by (auto simp add: getMany_products_def split: option.splits)

lemma findAll_miss_Inr:
  assumes miss: "cache_get (productsCache s) (clock s) (findAll_cacheKey dto) = None"
    and ok: "ProductsService_findAll cols s dto = (Inr rows, s')"
  shows "\<exists>q. findAll_query s dto = Inr q \<and>
           getMany_products cols
             (q\<lparr>q_limit := Some (limit_of dto), q_offset := Some (limit_of dto * page_of dto)\<rparr>)
             (productsRepo s) = Inr rows \<and>
           s' = s\<lparr>productsCache :=
                   cache_set (productsCache s) (clock s) (findAll_cacheKey dto) rows
                     FOUR_MINUTES\<rparr>"
  using assms
  by (auto simp add: ProductsService_findAll_def Let_def split: sum.splits)

lemma findAll_hit:
  assumes hit: "cache_get (productsCache s) (clock s) (findAll_cacheKey dto) = Some cached"
  shows "ProductsService_findAll cols s dto = (Inr cached, s)"
  using assms by (simp add: ProductsService_findAll_def Let_def)

lemma findAll_query_bounds:
  "findAll_query s dto = Inr q \<Longrightarrow>
     pq_minPrice q = minPrice_of dto \<and> pq_maxPrice q = maxPrice_of dto"
  by (auto simp add: findAll_query_def Let_def orderBy_qb_def addOrderBy_qb_def
        split: option.splits sum.splits if_splits)

lemma findAll_query_explicit:
  assumes "findAll_query s dto = Inr q" and "orderBy dto = Some col" and "col \<noteq> []"
  shows "\<exists>t d. orderByType dto = Some t \<and> parse_direction (toUpperCase t) = Some d \<and>
           q_order q = [(ProductColumn col, d, None)]"
  using assms
  by (auto simp add: findAll_query_def Let_def orderBy_qb_def truthy_string_def
        split: option.splits sum.splits if_splits)

lemma findAll_query_pinned:
  assumes "findAll_query s dto = Inr q" and "\<not> truthy_string (orderBy dto)"
    and "lastCategories dto = Some cs" and "cs \<noteq> []"
  shows "q_order q = [(CaseCategoryIn cs, DESC, Some NULLS_LAST)]"
  using assms
  by (auto simp add: findAll_query_def Let_def addOrderBy_qb_def parse_direction_def
        split: option.splits sum.splits if_splits)

subsection \<open>The review query\<close>

lemma distinct_clauses_Cons:
  "distinct_clauses cols ((ReviewCreatedAt, d, nl) # clauses) = Inr resolved \<Longrightarrow>
     \<exists>rest. resolved = order_by (\<lambda>row. Some (created_at (fst row))) d nl # rest"
  by (auto split: sum.splits)

lemma distinct_clauses_product_column:
  "(JoinedProductColumn name, d, nl) \<in> set clauses \<Longrightarrow>
     distinct_clauses cols clauses = Inl TypeError \<or>
     distinct_clauses cols clauses = Inl QueryFailedError"
  by (induction cols clauses rule: distinct_clauses.induct)
     (auto split: option.splits sum.splits error.splits)

lemma getMany_reviews_newest_first:
  assumes run: "getMany_reviews cols q reviews products = Inr rows"
    and first: "q_order q = (ReviewCreatedAt, DESC, None) # rest"
  shows "newest_first rows"
proof -
  let ?joined = "filter (review_where q) (leftJoin_product reviews products)"
  let ?by_time = "order_by (\<lambda>row :: review_row. Some (created_at (fst row))) DESC None"
  have time: "sorted_wrt (\<lambda>a b. created_at (fst b) \<le> created_at (fst a)) (?by_time xs)" for xs
    using order_by_column_sorted
            [where d = DESC and g = "\<lambda>row :: review_row. created_at (fst row)" and nl = None
               and rows = xs]
    by simp
  show ?thesis
  proof (cases "paginated q")
    case True
    with run first obtain resolved where
      resolved: "distinct_clauses cols ((ReviewCreatedAt, DESC, None) # rest) = Inr resolved"
      by (auto simp add: getMany_reviews_def Let_def split: sum.splits)
    from distinct_clauses_Cons [OF this] obtain others where
      others: "resolved = ?by_time # others"
      by blast
    from run first True resolved
    have "rows = [] \<or> (\<exists>kept. rows = map fst (order_rows resolved kept))"
      by (auto simp add: getMany_reviews_def Let_def split: if_splits)
    then show ?thesis
    proof
      assume "rows = []"
      then show ?thesis
        by (simp add: newest_first_def)
    next
      assume "\<exists>kept. rows = map fst (order_rows resolved kept)"
      then obtain kept where "rows = map fst (?by_time (order_rows others kept))"
        using others by auto
      then show ?thesis
        using time by (simp add: newest_first_def sorted_wrt_map)
    qed
  next
    case False
    with run first obtain resolved where
      resolved: "resolve_clauses (review_clause cols) ((ReviewCreatedAt, DESC, None) # rest)
                   = Some resolved" and
      rows: "rows = map fst (limit_offset (q_limit q) (q_offset q) (order_rows resolved ?joined))"
      by (auto simp add: getMany_reviews_def Let_def split: option.splits)
    from resolve_clauses_Cons [OF resolved] obtain others where
      "resolved = ?by_time # others"
      by (auto simp add: review_clause_def)
    with rows have "rows = map fst (limit_offset (q_limit q) (q_offset q)
                                      (?by_time (order_rows others ?joined)))"
      by simp
    then show ?thesis
      using limit_offset_sorted_wrt [OF time] by (simp add: newest_first_def sorted_wrt_map)
  qed
qed

lemma findByProduct_query_order:
  assumes "findByProduct_query dto = Inr q"
  shows "q_order q =
           (ReviewCreatedAt, DESC, None) #
           (case rv_orderBy dto of
              None \<Rightarrow> []
            | Some col \<Rightarrow>
                if col = [] then []
                else (case rv_orderByType dto of
                        None \<Rightarrow> []
                      | Some t \<Rightarrow>
                          (case parse_direction (toUpperCase t) of
                             None \<Rightarrow> []
                           | Some d \<Rightarrow> [(JoinedProductColumn col, d, None)]))) \<and>
         rq_take q = Some (rv_limit_of dto) \<and>
         rq_skip q = Some (rv_limit_of dto * rv_page_of dto)"
  using assms
  by (auto simp add: findByProduct_query_def Let_def orderBy_qb_def addOrderBy_qb_def
        parse_direction_def truthy_string_def
        split: option.splits sum.splits if_splits)

lemma findByProduct_miss:
  assumes miss: "cache_get (reviewsCache s) (clock s) (findByProduct_cacheKey dto) = None"
    and q: "findByProduct_query dto = Inr q"
  shows "ReviewsService_findByProduct cols s dto =
           (map_sum id Page (getMany_reviews cols q (reviewsRepo s) (productsRepo s)),
            s\<lparr>reviewsCache :=
                cache_set (reviewsCache s) (clock s) (findByProduct_cacheKey dto) EmptyObject 240\<rparr>)"
  using assms
  by (auto simp add: ReviewsService_findByProduct_def Let_def split: sum.splits)

lemma findByProduct_hit:
  assumes hit: "cache_get (reviewsCache s) (clock s) (findByProduct_cacheKey dto) = Some cached"
  shows "ReviewsService_findByProduct cols s dto = (Inr cached, s)"
  using assms by (simp add: ReviewsService_findByProduct_def Let_def)

section \<open>The product listing\<close>

text \<open>
  A listing that misses the cache returns a page whenever the category filter passes
  and, if a sort column is given, the column is one of the table and the direction, in
  upper case, is \<open>ASC\<close> or \<open>DESC\<close>.
\<close>

lemma findAll_returns_page:
  assumes miss: "cache_get (productsCache s) (clock s) (findAll_cacheKey dto) = None"
    and cat: "category_filter_ok s dto"
    and sort: "truthy_string (orderBy dto) \<Longrightarrow>
                 \<exists>col t d f. orderBy dto = Some col \<and> orderByType dto = Some t \<and>
                   parse_direction (toUpperCase t) = Some d \<and> cols col = Some f"
  shows "\<exists>rows s'. ProductsService_findAll cols s dto = (Inr rows, s')"
proof (cases "truthy_string (orderBy dto)")
  case True
  from sort [OF True] obtain col t d f where
    "orderBy dto = Some col" "orderByType dto = Some t"
    "parse_direction (toUpperCase t) = Some d" "cols col = Some f"
    by blast
  with miss cat True show ?thesis
    by (auto simp add: ProductsService_findAll_def findAll_query_def category_filter_ok_def
          Let_def orderBy_qb_def getMany_products_def product_clause_def
          split: option.splits if_splits)
next
  case False
  with miss cat show ?thesis
    by (auto simp add: ProductsService_findAll_def findAll_query_def category_filter_ok_def
          Let_def addOrderBy_qb_def getMany_products_def product_clause_def
          parse_direction_def
          split: option.splits if_splits)
qed

text \<open>
  Conversely, a page returned on a cache miss for a request with a sort column shows that
  the request had a direction.
\<close>

lemma findAll_page_has_direction:
  assumes miss: "cache_get (productsCache s) (clock s) (findAll_cacheKey dto) = None"
    and ok: "ProductsService_findAll cols s dto = (Inr rows, s')"
    and col: "truthy_string (orderBy dto)"
  shows "orderByType dto \<noteq> None"
proof -
  from findAll_miss_Inr [OF miss ok] obtain q where q: "findAll_query s dto = Inr q"
    by blast
  from col obtain c where "orderBy dto = Some c" "c \<noteq> []"
    by (auto simp add: truthy_string_def split: option.splits)
  from findAll_query_explicit [OF q this] show ?thesis
    by auto
qed

text \<open>
  The pages of the product listing are written to the cache by the product listing
  alone: looking up, creating, updating and deleting, and the review listing, leave them
  as they are.
\<close>

lemma listing_caches_kept:
  "productsCache (snd (ProductsService_findById s i)) = productsCache s"
  "productsCache (snd (ProductsService_create s u c)) = productsCache s"
  "productsCache (snd (ProductsService_update s u i d)) = productsCache s"
  "productsCache (snd (ProductsService_delete s u i)) = productsCache s"
  "productsCache (snd (ReviewsService_findByProduct cols s rq)) = productsCache s"
  "productsCache (snd (ReviewsService_update s u i rd)) = productsCache s"
  "productsCache (snd (ReviewsService_delete s u i)) = productsCache s"
  by (auto simp add: ProductsService_findById_def ProductsService_create_def
        ProductsService_update_def ProductsService_delete_def ReviewsService_update_def
        ReviewsService_delete_def ReviewsService_findById_def ReviewsService_findByProduct_def
        Let_def
        split: option.splits sum.splits prod.splits if_splits)

text \<open>
  C3. On a cache miss on which \<open>findAll\<close> returns a page, for every table of columns:
  with an explicit \<open>orderBy\<close> column the query has the one ORDER BY clause of that
  column and the direction of \<open>orderByType\<close>, whatever \<open>lastCategories\<close> holds, the
  column is one of the table, and the page is sorted by the column in that direction;
  without one and with a non-empty \<open>lastCategories\<close>, every row of the page whose
  category is in the list stands before every row whose category is not.
\<close>

theorem findAll_sort_precedence:
  assumes miss: "cache_get (productsCache s) (clock s) (findAll_cacheKey dto) = None"
    and ok: "ProductsService_findAll cols s dto = (Inr rows, s')"
  shows "(\<forall>col. orderBy dto = Some col \<and> col \<noteq> [] \<longrightarrow>
            (\<exists>q t d f. findAll_query s dto = Inr q \<and> orderByType dto = Some t \<and>
               parse_direction (toUpperCase t) = Some d \<and>
               q_order q = [(ProductColumn col, d, None)] \<and>
               cols col = Some f \<and>
               sorted_wrt (\<lambda>a b. case d of ASC \<Rightarrow> f a \<le> f b | DESC \<Rightarrow> f b \<le> f a) rows)) \<and>
         (\<forall>cs. \<not> truthy_string (orderBy dto) \<and> lastCategories dto = Some cs \<and> cs \<noteq> [] \<longrightarrow>
            (\<forall>i j. i < length rows \<and> j < length rows \<and>
                    in_lastCategories cs (rows ! i) \<and> \<not> in_lastCategories cs (rows ! j)
                    \<longrightarrow> i < j))"
proof -
  from findAll_miss_Inr [OF miss ok] obtain q where
    q: "findAll_query s dto = Inr q" and
    run: "getMany_products cols
            (q\<lparr>q_limit := Some (limit_of dto), q_offset := Some (limit_of dto * page_of dto)\<rparr>)
            (productsRepo s) = Inr rows"
    by blast
  let ?q = "q\<lparr>q_limit := Some (limit_of dto), q_offset := Some (limit_of dto * page_of dto)\<rparr>"
  have explicit: "\<exists>q t d f. findAll_query s dto = Inr q \<and> orderByType dto = Some t \<and>
               parse_direction (toUpperCase t) = Some d \<and>
               q_order q = [(ProductColumn col, d, None)] \<and>
               cols col = Some f \<and>
               sorted_wrt (\<lambda>a b. case d of ASC \<Rightarrow> f a \<le> f b | DESC \<Rightarrow> f b \<le> f a) rows"
    if col: "orderBy dto = Some col" "col \<noteq> []" for col
  proof -
    from findAll_query_explicit [OF q col] obtain t d where
      t: "orderByType dto = Some t" and d: "parse_direction (toUpperCase t) = Some d" and
      ord: "q_order q = [(ProductColumn col, d, None)]"
      by blast
    from ord have "q_order ?q = [(ProductColumn col, d, None)]"
      by simp
    from getMany_products_single [OF run this] obtain sorter where
      sorter: "product_clause cols (ProductColumn col, d, None) = Some sorter" and
      rows: "rows = limit_offset (q_limit ?q) (q_offset ?q)
                      (sorter (filter (product_where ?q) (productsRepo s)))"
      by blast
    from sorter obtain f where f: "cols col = Some f"
      and sf: "sorter = order_by (\<lambda>p. Some (f p)) d None"
      by (auto simp add: product_clause_def)
    have "sorted_wrt (\<lambda>a b. case d of ASC \<Rightarrow> f a \<le> f b | DESC \<Rightarrow> f b \<le> f a) rows"
      unfolding rows sf by (rule limit_offset_sorted_wrt [OF order_by_column_sorted])
    with q t d ord f show ?thesis
      by blast
  qed
  have pinned: "i < j"
    if cs: "\<not> truthy_string (orderBy dto)" "lastCategories dto = Some cs" "cs \<noteq> []"
      and ij: "i < length rows" "j < length rows"
        "in_lastCategories cs (rows ! i)" "\<not> in_lastCategories cs (rows ! j)"
    for cs i j
  proof (rule ccontr)
    assume "\<not> i < j"
    with ij have ji: "j < i"
      by (cases "i = j") auto
    define g :: "Product \<Rightarrow> int option" where
      "g = (\<lambda>p. case category p of
                   None \<Rightarrow> None
                 | Some c \<Rightarrow> if c \<in> set cs then Some (1 :: int) else None)"
    from findAll_query_pinned [OF q cs]
    have "q_order ?q = [(CaseCategoryIn cs, DESC, Some NULLS_LAST)]"
      by simp
    from getMany_products_single [OF run this] obtain sorter where
      sorter: "product_clause cols (CaseCategoryIn cs, DESC, Some NULLS_LAST) = Some sorter" and
      rows: "rows = limit_offset (q_limit ?q) (q_offset ?q)
                      (sorter (filter (product_where ?q) (productsRepo s)))"
      by blast
    from sorter have sg: "sorter = order_by g DESC (Some NULLS_LAST)"
      by (simp add: product_clause_def g_def)
    have "nulls_last DESC (Some NULLS_LAST)"
      by (simp add: nulls_last_def)
    then have sorted: "sorted_wrt (\<lambda>a b. g b \<noteq> None \<longrightarrow> g a \<noteq> None) rows"
      unfolding rows sg by (rule limit_offset_sorted_wrt [OF order_by_nulls_last])
    have gin: "g p \<noteq> None \<longleftrightarrow> in_lastCategories cs p" for p
      by (auto simp add: g_def in_lastCategories_def split: option.splits if_splits)
    from sorted_wrt_nth_less [OF sorted ji ij(1)] ij(3,4) gin show False
      by blast
  qed
  from explicit pinned show ?thesis
    by blast
qed

text \<open>
  In the shop: by descending price the book (20) comes before the toy (15), though the
  last viewed category is that of the toy; by ascending attributes, a text column, the
  book comes before the toy; with category 3 last viewed and prices from 10 to 50, the
  book of category 3 comes before the toy of category 5.
\<close>

theorem findAll_sort_precedence_witness:
  "cache_get (productsCache shop) (clock shop) (findAll_cacheKey by_price_desc) = None \<and>
   fst (ProductsService_findAll number_columns shop by_price_desc) = Inr [book, toy] \<and>
   sorted_wrt (\<lambda>a b. price b \<le> price a) [book, toy] \<and>
   cache_get (productsCache shop) (clock shop) (findAll_cacheKey by_attributes_asc) = None \<and>
   fst (ProductsService_findAll text_columns shop by_attributes_asc) = Inr [book, toy] \<and>
   sorted_wrt (\<lambda>a b. attributes a \<le> attributes b) [book, toy] \<and>
   cache_get (productsCache shop) (clock shop) (findAll_cacheKey last_viewed_books) = None \<and>
   fst (ProductsService_findAll number_columns shop last_viewed_books) = Inr [book, toy] \<and>
   in_lastCategories [3] ([book, toy] ! 0) \<and> \<not> in_lastCategories [3] ([book, toy] ! 1) \<and>
   (0 :: nat) < 1"
proof -
  have miss1: "cache_get (productsCache shop) (clock shop) (findAll_cacheKey by_price_desc) = None"
    by code_simp
  have ok1: "ProductsService_findAll number_columns shop by_price_desc =
               (Inr [book, toy],
                shop\<lparr>productsCache := [(findAll_cacheKey by_price_desc, [book, toy], 1240)]\<rparr>)"
    by code_simp
  have col1: "orderBy by_price_desc = Some ''price''" "''price'' \<noteq> []"
    "orderByType by_price_desc = Some ''desc''"
    "parse_direction (toUpperCase ''desc'') = Some DESC"
    by code_simp+
  have price: "number_columns ''price'' = Some price"
    by (simp add: number_columns_def)
  from findAll_sort_precedence [OF miss1 ok1] col1 price
  have sorted1: "sorted_wrt (\<lambda>a b. price b \<le> price a) [book, toy]"
    by auto
  have miss2:
    "cache_get (productsCache shop) (clock shop) (findAll_cacheKey by_attributes_asc) = None"
    by code_simp
  have ok2: "ProductsService_findAll text_columns shop by_attributes_asc =
               (Inr [book, toy],
                shop\<lparr>productsCache := [(findAll_cacheKey by_attributes_asc, [book, toy], 1240)]\<rparr>)"
    by code_simp
  have col2: "orderBy by_attributes_asc = Some ''attributes''" "''attributes'' \<noteq> []"
    "orderByType by_attributes_asc = Some ''asc''"
    "parse_direction (toUpperCase ''asc'') = Some ASC"
    by code_simp+
  have attr: "text_columns ''attributes'' = Some attributes"
    by (simp add: text_columns_def)
  from findAll_sort_precedence [OF miss2 ok2] col2 attr
  have sorted2: "sorted_wrt (\<lambda>a b. attributes a \<le> attributes b) [book, toy]"
    by auto
  have miss3:
    "cache_get (productsCache shop) (clock shop) (findAll_cacheKey last_viewed_books) = None"
    by code_simp
  have ok3: "ProductsService_findAll number_columns shop last_viewed_books =
               (Inr [book, toy],
                shop\<lparr>productsCache := [(findAll_cacheKey last_viewed_books, [book, toy], 1240)]\<rparr>)"
    by code_simp
  have cs: "\<not> truthy_string (orderBy last_viewed_books)"
    "lastCategories last_viewed_books = Some [3]" "[3 :: int] \<noteq> []"
    by code_simp+
  have inout: "in_lastCategories [3] ([book, toy] ! 0)"
    "\<not> in_lastCategories [3] ([book, toy] ! 1)"
    by code_simp+
  from findAll_sort_precedence [OF miss3 ok3] cs inout
  have "(0 :: nat) < 1"
    by auto
  with miss1 ok1 sorted1 miss2 ok2 sorted2 miss3 ok3 inout show ?thesis
    by simp
qed

text \<open>
  C7, as the code has it. When every page in the cache holds only products priced
  within the bounds of its key (as in an empty cache, and as \<open>findAll\<close>, the only
  writer of these entries, leaves it), every product of a page \<open>findAll\<close> returns has
  a price within the bounds of the request, where an absent lower bound is 0 and an
  absent upper bound is 99999999999999.
\<close>

theorem findAll_price_within_bounds:
  assumes inv: "products_cache_in_range (productsCache s)"
    and ok: "ProductsService_findAll cols s dto = (Inr rows, s')"
  shows "(\<forall>p \<in> set rows.
            (case minPrice dto of None \<Rightarrow> 0 | Some lo \<Rightarrow> lo) \<le> price p \<and>
            price p \<le> (case maxPrice dto of None \<Rightarrow> 99999999999999 | Some hi \<Rightarrow> hi)) \<and>
         products_cache_in_range (productsCache s')"
proof (cases "cache_get (productsCache s) (clock s) (findAll_cacheKey dto)")
  case (Some cached)
  from findAll_hit [OF Some, of cols] ok have same: "rows = cached" "s' = s"
    by simp_all
  from Some obtain expires where
    "map_of (productsCache s) (findAll_cacheKey dto) = Some (cached, expires)"
    by (auto simp add: cache_get_def split: option.splits if_splits)
  then have "(findAll_cacheKey dto, cached, expires) \<in> set (productsCache s)"
    by (rule map_of_SomeD)
  with inv have "price_between (minPrice_of dto) (maxPrice_of dto) cached"
    by (auto simp add: products_cache_in_range_def list_all_iff findAll_cacheKey_def
          getProductsCacheKey_def)
  with same inv show ?thesis
    by (simp add: price_between_def list_all_iff minPrice_of_def maxPrice_of_def)
next
  case None
  from findAll_miss_Inr [OF None ok] obtain q where
    q: "findAll_query s dto = Inr q" and
    run: "getMany_products cols
            (q\<lparr>q_limit := Some (limit_of dto), q_offset := Some (limit_of dto * page_of dto)\<rparr>)
            (productsRepo s) = Inr rows" and
    s': "s' = s\<lparr>productsCache :=
                 cache_set (productsCache s) (clock s) (findAll_cacheKey dto) rows
                   FOUR_MINUTES\<rparr>"
    by blast
  from getMany_products_where [OF run] findAll_query_bounds [OF q]
  have rows: "\<forall>p \<in> set rows. minPrice_of dto \<le> price p \<and> price p \<le> maxPrice_of dto"
    by (auto simp add: product_where_def)
  then have "price_between (minPrice_of dto) (maxPrice_of dto) rows"
    by (simp add: price_between_def list_all_iff)
  with inv s' have "products_cache_in_range (productsCache s')"
    by (simp add: products_cache_in_range_def cache_set_def findAll_cacheKey_def
          getProductsCacheKey_def)
  with rows show ?thesis
    by (simp add: minPrice_of_def maxPrice_of_def)
qed

text \<open>In the shop, the listing from 10 to 50 returns the book (20) and the toy (15).\<close>

theorem findAll_price_within_bounds_witness:
  "products_cache_in_range (productsCache shop) \<and>
   ProductsService_findAll number_columns shop last_viewed_books =
     (Inr [book, toy],
      shop\<lparr>productsCache :=
             [(ProductsCacheKey None None 10 0 10 50 None (Some [3]), [book, toy], 1240)]\<rparr>) \<and>
   10 \<le> price book \<and> price book \<le> 50 \<and> 10 \<le> price toy \<and> price toy \<le> 50 \<and>
   products_cache_in_range
     [(ProductsCacheKey None None 10 0 10 50 None (Some [3]), [book, toy], 1240)]"
proof -
  have inv: "products_cache_in_range (productsCache shop)"
    by code_simp
  have ok: "ProductsService_findAll number_columns shop last_viewed_books =
     (Inr [book, toy],
      shop\<lparr>productsCache :=
             [(ProductsCacheKey None None 10 0 10 50 None (Some [3]), [book, toy], 1240)]\<rparr>)"
    by code_simp
  have bounds: "minPrice last_viewed_books = Some 10" "maxPrice last_viewed_books = Some 50"
    by code_simp+
  from findAll_price_within_bounds [OF inv ok] bounds inv ok show ?thesis
    by simp
qed

text \<open>
  C7 as stated fails in its default: with both bounds absent the upper bound is not
  open. The yacht, priced 100000000000000, is in the table and passes the price filter
  of the specification, and the listing with no bounds (a page of two rows, with room for
  ten) leaves it out.
\<close>

theorem findAll_default_maxPrice_is_finite:
  "minPrice any_products = None \<and> maxPrice any_products = None \<and>
   ProductsService_findAll number_columns shop any_products =
     (Inr [toy, book],
      shop\<lparr>productsCache :=
             [(ProductsCacheKey None None 10 0 0 99999999999999 None None, [toy, book],
               1240)]\<rparr>) \<and>
   yacht \<in> set (productsRepo shop) \<and> spec_price_filter any_products yacht \<and>
   yacht \<notin> set [toy, book]"
  by code_simp

section \<open>The review listing\<close>

text \<open>
  A page that \<open>findByProduct\<close> returns on a cache miss is in descending order of
  creation time.
\<close>

lemma findByProduct_page_newest_first:
  assumes miss: "cache_get (reviewsCache s) (clock s) (findByProduct_cacheKey dto) = None"
    and ok: "ReviewsService_findByProduct cols s dto = (Inr (Page rows), s')"
  shows "newest_first rows"
proof -
  from miss ok obtain q where q: "findByProduct_query dto = Inr q"
    by (auto simp add: ReviewsService_findByProduct_def Let_def split: sum.splits)
  from findByProduct_miss [OF miss q, of cols] ok
  have run: "getMany_reviews cols q (reviewsRepo s) (productsRepo s) = Inr rows"
    by (cases "getMany_reviews cols q (reviewsRepo s) (productsRepo s)") auto
  from findByProduct_query_order [OF q] obtain rest where
    "q_order q = (ReviewCreatedAt, DESC, None) # rest"
    by blast
  from getMany_reviews_newest_first [OF run this] show ?thesis .
qed

text \<open>
  With a sort column and a page size other than 0 the listing never returns a page: the
  query is paged, and the clause of the product column fails it.
\<close>

lemma findByProduct_sort_column_paged:
  assumes miss: "cache_get (reviewsCache s) (clock s) (findByProduct_cacheKey dto) = None"
    and col: "truthy_string (rv_orderBy dto)"
    and paged: "rv_limit_of dto \<noteq> 0"
  shows "\<exists>e. fst (ReviewsService_findByProduct cols s dto) = Inl e"
proof (cases "findByProduct_query dto")
  case (Inl e)
  with miss show ?thesis
    by (simp add: ReviewsService_findByProduct_def Let_def)
next
  case (Inr q)
  from findByProduct_query_order [OF Inr] col obtain name d where
    ord: "q_order q = [(ReviewCreatedAt, DESC, None), (JoinedProductColumn name, d, None)]"
    using Inr
    by (auto simp add: findByProduct_query_def Let_def orderBy_qb_def addOrderBy_qb_def
          parse_direction_def truthy_string_def
          split: option.splits sum.splits if_splits)
  from findByProduct_query_order [OF Inr] paged have "paginated q"
    by (simp add: paginated_def)
  moreover from ord
  have "distinct_clauses cols (q_order q) = Inl TypeError \<or>
        distinct_clauses cols (q_order q) = Inl QueryFailedError"
    using distinct_clauses_product_column [of name d None "q_order q" cols] by simp
  ultimately have "\<exists>e. getMany_reviews cols q (reviewsRepo s) (productsRepo s) = Inl e"
    by (auto simp add: getMany_reviews_def Let_def)
  with findByProduct_miss [OF miss Inr, of cols] show ?thesis
    by auto
qed

text \<open>
  In the shop: without a sort column the later review comes first; with the price of the
  product as sort column and a page size of 0 the query is not paged and returns the same
  page; a column that no product has raises a TypeError when the query is paged and fails
  in the database when it is not.
\<close>

lemma findByProduct_sort_column_runs:
  "fst (ReviewsService_findByProduct number_columns shop any_reviews) =
     Inr (Page [late_review, early_review]) \<and>
   fst (ReviewsService_findByProduct number_columns shop by_product_price_unpaged) =
     Inr (Page [late_review, early_review]) \<and>
   fst (ReviewsService_findByProduct number_columns shop by_product_colour) = Inl TypeError \<and>
   fst (ReviewsService_findByProduct number_columns shop
          (by_product_colour\<lparr>rv_limit := Some 0\<rparr>)) = Inl QueryFailedError"
  by code_simp

text \<open>
  C8. A review listing with an explicit \<open>orderBy\<close> column should come back in
  descending order of creation time, the column breaking ties. \<open>findByProduct\<close> does
  build the query so, with \<open>review.created_at DESC\<close> first and the column of the
  product second, but it pages the query with \<open>take\<close> and \<open>skip\<close> over a join that
  selects no product column: in the shop, the reviews of product 2 by the price of the
  product, with the default page size, raise QueryFailedError and no page is returned.
\<close>

theorem findByProduct_sort_column_fails:
  "findByProduct_query by_product_price =
     Inr \<lparr>q_order = [(ReviewCreatedAt, DESC, None), (JoinedProductColumn ''price'', ASC, None)],
          q_limit = None, q_offset = None, rq_productId = 2, rq_take = Some 10,
          rq_skip = Some 0\<rparr> \<and>
   ReviewsService_findByProduct number_columns shop by_product_price =
     (Inl QueryFailedError,
      shop\<lparr>reviewsCache := [(findByProduct_cacheKey by_product_price, EmptyObject, 1240)]\<rparr>)"
  by code_simp

section \<open>Listings served from the cache\<close>

text \<open>
  The product listing awaits its page and gives the page to the cache. When it misses
  the cache and returns a page, the same request on any state that holds the entry the
  first call wrote, at a time of the clock within \<open>FOUR_MINUTES\<close> of the first call,
  returns the same page whatever the tables hold.
\<close>

lemma findAll_served_from_cache:
  assumes miss: "cache_get (productsCache s) (clock s) (findAll_cacheKey dto) = None"
    and ok: "ProductsService_findAll cols s dto = (Inr rows, s1)"
    and same: "map_of (productsCache s2) (findAll_cacheKey dto) =
               map_of (productsCache s1) (findAll_cacheKey dto)"
    and window: "clock s2 < clock s + FOUR_MINUTES"
  shows "ProductsService_findAll cols' s2 dto = (Inr rows, s2)"
proof -
  from findAll_miss_Inr [OF miss ok]
  have "map_of (productsCache s1) (findAll_cacheKey dto) = Some (rows, clock s + FOUR_MINUTES)"
    by (auto simp add: cache_set_def)
  with same window
  have "cache_get (productsCache s2) (clock s2) (findAll_cacheKey dto) = Some rows"
    by (simp add: cache_get_def)
  then show ?thesis
    by (rule findAll_hit)
qed

text \<open>
  In the shop: the listing fills the cache at time 1000; at time 1239, with the tables
  emptied, it returns the page of time 1000.
\<close>

lemma findAll_served_from_cache_shop:
  "ProductsService_findAll number_columns shop any_products = (Inr [toy, book], listed) \<and>
   productsRepo (emptied listed) = [] \<and> clock (emptied listed) = 1239 \<and>
   ProductsService_findAll number_columns (emptied listed) any_products =
     (Inr [toy, book], emptied listed)"
  by code_simp

text \<open>
  The review listing gives the cache its promise instead. When it misses the cache and
  returns a page, the same request on any state that holds the entry the first call
  wrote, within 240 ticks of the first call, returns the empty object.
\<close>

lemma findByProduct_second_call:
  assumes miss: "cache_get (reviewsCache s) (clock s) (findByProduct_cacheKey dto) = None"
    and first: "ReviewsService_findByProduct cols s dto = (Inr (Page rows), s1)"
    and same: "map_of (reviewsCache s2) (findByProduct_cacheKey dto) =
               map_of (reviewsCache s1) (findByProduct_cacheKey dto)"
    and window: "clock s2 < clock s + 240"
  shows "ReviewsService_findByProduct cols' s2 dto = (Inr EmptyObject, s2)"
proof -
  from miss first obtain q where q: "findByProduct_query dto = Inr q"
    by (auto simp add: ReviewsService_findByProduct_def Let_def split: sum.splits)
  from findByProduct_miss [OF miss q, of cols] first
  have "map_of (reviewsCache s1) (findByProduct_cacheKey dto) = Some (EmptyObject, clock s + 240)"
    by (auto simp add: cache_set_def)
  with same window
  have "cache_get (reviewsCache s2) (clock s2) (findByProduct_cacheKey dto) = Some EmptyObject"
    by (simp add: cache_get_def)
  then show ?thesis
    by (rule findByProduct_hit)
qed

text \<open>
  C4. The second of two identical listings within the time to live should return what
  the first returned. The review listing does not: in the shop the first call returns the
  page of the two reviews and leaves the empty object in the cache; 100 ticks later, with
  the tables as they were, the same request returns the empty object.
\<close>

theorem findByProduct_second_call_empty_object:
  "cache_get (reviewsCache shop) (clock shop) (findByProduct_cacheKey any_reviews) = None \<and>
   ReviewsService_findByProduct number_columns shop any_reviews =
     (Inr (Page [late_review, early_review]), reviewed) \<and>
   reviewsRepo (later reviewed) = reviewsRepo shop \<and>
   productsRepo (later reviewed) = productsRepo shop \<and>
   clock (later reviewed) = 1100 \<and>
   ReviewsService_findByProduct number_columns (later reviewed) any_reviews =
     (Inr EmptyObject, later reviewed)"
  by code_simp

end
